theory Spec2Isabelle
  imports Main "HOL-Library.Sublist" "HOL-Library.List_Lexorder" "HOL-Library.Char_ord"
begin

section \<open>Data model (models.py, mapping\_engine.py)\<close>

text \<open>
  \<open>EquivalenceEnum\<close> of models.py: a string-valued enumeration with ten members.
  The member \<open>equal\<close> is written \<open>equal_e\<close> here, since \<open>equal\<close> is a constant of HOL.
\<close>

datatype EquivalenceEnum =
  relatedto | equivalent | equal_e | wider | subsumes
  | narrower | specializes | inexact | unmatched | disjoint

fun equivalence_value :: "EquivalenceEnum \<Rightarrow> string" where
  "equivalence_value relatedto = ''relatedto''"
| "equivalence_value equivalent = ''equivalent''"
| "equivalence_value equal_e = ''equal''"
| "equivalence_value wider = ''wider''"
| "equivalence_value subsumes = ''subsumes''"
| "equivalence_value narrower = ''narrower''"
| "equivalence_value specializes = ''specializes''"
| "equivalence_value inexact = ''inexact''"
| "equivalence_value unmatched = ''unmatched''"
| "equivalence_value disjoint = ''disjoint''"

text \<open>The call \<open>EquivalenceEnum(v)\<close>: the member whose value is \<open>v\<close>; Python raises
  ValueError when there is none.\<close>

definition EquivalenceEnum_of :: "string \<Rightarrow> EquivalenceEnum option" where
  "EquivalenceEnum_of v =
     (if v = ''relatedto'' then Some relatedto
      else if v = ''equivalent'' then Some equivalent
      else if v = ''equal'' then Some equal_e
      else if v = ''wider'' then Some wider
      else if v = ''subsumes'' then Some subsumes
      else if v = ''narrower'' then Some narrower
      else if v = ''specializes'' then Some specializes
      else if v = ''inexact'' then Some inexact
      else if v = ''unmatched'' then Some unmatched
      else if v = ''disjoint'' then Some disjoint
      else None)"

text \<open>The exceptions the modelled code can raise. \<open>KeyError\<close> carries the missing key,
  \<open>ValueError\<close> the value that is no member of the enumeration.\<close>

datatype error = KeyError string | ValueError string | IndexError

text \<open>
  One element of the \<open>mappings\<close> list of the dataset document, as \<open>json.load\<close> returns
  it: a dictionary from field names to values. The dataset format gives every field a
  string value, so the values are strings here; an absent key is \<open>None\<close>.
\<close>

type_synonym raw_record = "string \<rightharpoonup> string"

type_synonym metadata = "(string \<times> string) list"

record dataset =
  ds_metadata :: metadata
  ds_mappings :: "raw_record list"

record CodeMapping =
  namaste_code :: string
  namaste_display :: string
  namaste_system :: string
  icd11_code :: string
  icd11_display :: string
  equivalence :: EquivalenceEnum
  notes_f :: "string option"

text \<open>
  \<open>CodeMapping.__init__\<close>: the six subscripts \<open>mapping_data["..."]\<close> are evaluated in the
  order of the source, each raising KeyError on an absent key; then the enumeration is
  built from the \<open>equivalence\<close> value; \<open>notes\<close> is read with \<open>.get\<close> and may be absent.
\<close>

definition CodeMapping_init :: "raw_record \<Rightarrow> error + CodeMapping" where
  "CodeMapping_init mapping_data =
     (case mapping_data ''namaste_code'' of
        None \<Rightarrow> Inl (KeyError ''namaste_code'')
      | Some nc \<Rightarrow>
     (case mapping_data ''namaste_display'' of
        None \<Rightarrow> Inl (KeyError ''namaste_display'')
      | Some nd \<Rightarrow>
     (case mapping_data ''namaste_system'' of
        None \<Rightarrow> Inl (KeyError ''namaste_system'')
      | Some ns \<Rightarrow>
     (case mapping_data ''icd11_code'' of
        None \<Rightarrow> Inl (KeyError ''icd11_code'')
      | Some ic \<Rightarrow>
     (case mapping_data ''icd11_display'' of
        None \<Rightarrow> Inl (KeyError ''icd11_display'')
      | Some idp \<Rightarrow>
     (case mapping_data ''equivalence'' of
        None \<Rightarrow> Inl (KeyError ''equivalence'')
      | Some ev \<Rightarrow>
     (case EquivalenceEnum_of ev of
        None \<Rightarrow> Inl (ValueError ev)
      | Some eq \<Rightarrow>
          Inr \<lparr>namaste_code = nc, namaste_display = nd, namaste_system = ns,
               icd11_code = ic, icd11_display = idp, equivalence = eq,
               notes_f = mapping_data ''notes''\<rparr>)))))))"

subsection \<open>Python dictionaries\<close>

text \<open>
  A Python dictionary iterates in insertion order, and assigning to a key that is
  already present keeps the key's position and replaces its value. So a dictionary is
  an association list with distinct keys: \<open>dict_set\<close> is \<open>d[k] = v\<close>, \<open>map_of\<close> is
  \<open>d.get(k)\<close>, \<open>map snd\<close> is \<open>d.values()\<close> and \<open>length\<close> is \<open>len(d)\<close>.
\<close>

fun dict_set :: "('k \<times> 'v) list \<Rightarrow> 'k \<Rightarrow> 'v \<Rightarrow> ('k \<times> 'v) list" where
  "dict_set [] k v = [(k, v)]"
| "dict_set ((k', v') # d) k v =
     (if k' = k then (k', v) # d else (k', v') # dict_set d k v)"

definition dict_values :: "('k \<times> 'v) list \<Rightarrow> 'v list" where
  "dict_values d = map snd d"

subsection \<open>The engine and its loader\<close>

record MappingEngine =
  mappings :: "(string \<times> CodeMapping) list"
  reverse_mappings :: "(string \<times> CodeMapping list) list"
  metadata :: metadata

text \<open>
  The body of the loop of \<open>_load_mappings\<close> after the record is built: store the record
  under its source code, create the reverse list when the target code is new, then
  append to the list found under the target code (a subscript, KeyError when absent).
\<close>

definition load_step :: "MappingEngine \<Rightarrow> CodeMapping \<Rightarrow> error + MappingEngine" where
  "load_step e mapping =
     (let fwd = dict_set (mappings e) (namaste_code mapping) mapping;
          rev0 = (if map_of (reverse_mappings e) (icd11_code mapping) = None
                  then dict_set (reverse_mappings e) (icd11_code mapping) []
                  else reverse_mappings e)
      in case map_of rev0 (icd11_code mapping) of
           None \<Rightarrow> Inl (KeyError (icd11_code mapping))
         | Some l \<Rightarrow>
             Inr (e\<lparr>mappings := fwd,
                    reverse_mappings := dict_set rev0 (icd11_code mapping) (l @ [mapping])\<rparr>))"

fun load_loop :: "MappingEngine \<Rightarrow> raw_record list \<Rightarrow> error + MappingEngine" where
  "load_loop e [] = Inr e"
| "load_loop e (mapping_data # rest) =
     (case CodeMapping_init mapping_data of
        Inl err \<Rightarrow> Inl err
      | Inr mapping \<Rightarrow>
          (case load_step e mapping of
             Inl err \<Rightarrow> Inl err
           | Inr e' \<Rightarrow> load_loop e' rest))"

text \<open>
  \<open>MappingEngine.__init__\<close> with \<open>_load_mappings\<close>. The argument is the parsed document,
  \<open>None\<close> when the file does not exist: the loader then logs and returns, and the engine
  keeps its empty indices. An exception of the loop is logged and raised again, so the
  constructor raises and no engine object exists: the result is \<open>Inl\<close>.
\<close>

definition empty_engine :: MappingEngine where
  "empty_engine = \<lparr>mappings = [], reverse_mappings = [], metadata = []\<rparr>"

definition MappingEngine_init :: "dataset option \<Rightarrow> error + MappingEngine" where
  "MappingEngine_init file =
     (case file of
        None \<Rightarrow> Inr empty_engine
      | Some data \<Rightarrow>
          load_loop (empty_engine\<lparr>metadata := ds_metadata data\<rparr>) (ds_mappings data))"

section \<open>Translation (mapping\_engine.py)\<close>

definition namaste_system_uri :: string where
  "namaste_system_uri = ''http://namaste.gov.in/fhir/CodeSystem/namaste''"

definition icd11_system_uri :: string where
  "icd11_system_uri = ''http://id.who.int/icd11/mms''"

text \<open>A \<open>CodeMapping\<close> object defines neither \<open>__bool__\<close> nor \<open>__len__\<close>, so
  \<open>if mapping:\<close> tests only that the lookup did not return \<open>None\<close>.\<close>

definition translate_namaste_to_icd11 ::
  "MappingEngine \<Rightarrow> string \<Rightarrow> bool \<times> CodeMapping option" where
  "translate_namaste_to_icd11 e code =
     (case map_of (mappings e) code of
        Some mapping \<Rightarrow> (True, Some mapping)
      | None \<Rightarrow> (False, None))"

definition translate_icd11_to_namaste ::
  "MappingEngine \<Rightarrow> string \<Rightarrow> bool \<times> CodeMapping list" where
  "translate_icd11_to_namaste e code =
     (let ms = (case map_of (reverse_mappings e) code of None \<Rightarrow> [] | Some l \<Rightarrow> l)
      in if ms \<noteq> [] then (True, ms) else (False, []))"

definition translate_code ::
  "MappingEngine \<Rightarrow> string \<Rightarrow> string \<Rightarrow> string
     \<Rightarrow> bool \<times> CodeMapping option \<times> CodeMapping list" where
  "translate_code e code source_system target_system =
     (if source_system = namaste_system_uri \<and> target_system = icd11_system_uri then
        (case translate_namaste_to_icd11 e code of
           (success, mapping) \<Rightarrow>
             (success, mapping, (case mapping of Some m \<Rightarrow> [m] | None \<Rightarrow> [])))
      else if source_system = icd11_system_uri \<and> target_system = namaste_system_uri then
        (case translate_icd11_to_namaste e code of
           (success, ms) \<Rightarrow>
             (success, (case ms of [] \<Rightarrow> None | m # _ \<Rightarrow> Some m), ms))
      else (False, None, []))"

section \<open>Search (mapping\_engine.py)\<close>

text \<open>
  A string is the list of the bytes of its UTF-8 encoding, so a character of ASCII is
  one byte below 128, and equality, emptiness and containment of strings are those of
  the Python strings. \<open>str.lower\<close> is a built-in of Python, not code of this repository.
  On a string of ASCII characters it moves \<open>A\<close> to \<open>Z\<close> (codes 65 to 90) to \<open>a\<close> to
  \<open>z\<close> and leaves every other character; this is written out. On a string with a
  character beyond ASCII it follows the case tables of Unicode; there it is the
  parameter \<open>unicode_lower\<close>, about which nothing is assumed.
\<close>

definition char_lower :: "char \<Rightarrow> char" where
  "char_lower c =
     (let n = (of_char c :: nat) in if 65 \<le> n \<and> n \<le> 90 then char_of (n + 32) else c)"

definition is_ascii :: "string \<Rightarrow> bool" where
  "is_ascii s = list_all (\<lambda>c. (of_char c :: nat) < 128) s"

definition str_lower :: "(string \<Rightarrow> string) \<Rightarrow> string \<Rightarrow> string" where
  "str_lower unicode_lower s = (if is_ascii s then map char_lower s else unicode_lower s)"

text \<open>\<open>needle in haystack\<close> on strings: some suffix of the haystack starts with the
  needle.\<close>

fun str_contains :: "string \<Rightarrow> string \<Rightarrow> bool" where
  "str_contains [] needle = (needle = [])"
| "str_contains (c # cs) needle = (prefix needle (c # cs) \<or> str_contains cs needle)"

text \<open>
  \<open>getattr(mapping, field, "")\<close>. The result is \<open>None\<close> for Python's \<open>None\<close> (absent
  notes). The seven data attributes are modelled, the enumeration member reading as
  its string value; a name that is no attribute gives the default \<open>""\<close>. Names of
  methods are not strings to search in and are outside the model; no caller passes
  \<open>search_fields\<close>, so the default list is the one in use.
\<close>

definition getattr_CodeMapping :: "CodeMapping \<Rightarrow> string \<Rightarrow> string option" where
  "getattr_CodeMapping mapping field =
     (if field = ''namaste_code'' then Some (namaste_code mapping)
      else if field = ''namaste_display'' then Some (namaste_display mapping)
      else if field = ''namaste_system'' then Some (namaste_system mapping)
      else if field = ''icd11_code'' then Some (icd11_code mapping)
      else if field = ''icd11_display'' then Some (icd11_display mapping)
      else if field = ''equivalence'' then Some (equivalence_value (equivalence mapping))
      else if field = ''notes'' then notes_f mapping
      else Some [])"

text \<open>Truth value of an optional string: \<open>None\<close> and \<open>""\<close> are false.\<close>

definition truthy :: "string option \<Rightarrow> bool" where
  "truthy v = (case v of None \<Rightarrow> False | Some s \<Rightarrow> s \<noteq> [])"

text \<open>The inner loop over the fields, which stops at the first field that matches.\<close>

fun any_field_matches ::
  "(string \<Rightarrow> string) \<Rightarrow> string \<Rightarrow> CodeMapping \<Rightarrow> string list \<Rightarrow> bool" where
  "any_field_matches unicode_lower query_lower mapping [] = False"
| "any_field_matches unicode_lower query_lower mapping (field # others) =
     (case getattr_CodeMapping mapping field of
        None \<Rightarrow> any_field_matches unicode_lower query_lower mapping others
      | Some field_value \<Rightarrow>
          if field_value \<noteq> []
             \<and> str_contains (str_lower unicode_lower field_value) query_lower
          then True
          else any_field_matches unicode_lower query_lower mapping others)"

text \<open>The outer loop over \<open>self.mappings.values()\<close>, appending to \<open>results\<close>.\<close>

fun search_loop ::
  "(string \<Rightarrow> string) \<Rightarrow> string \<Rightarrow> string list \<Rightarrow> CodeMapping list \<Rightarrow> CodeMapping list
     \<Rightarrow> CodeMapping list" where
  "search_loop unicode_lower query_lower flds [] results = results"
| "search_loop unicode_lower query_lower flds (mapping # rest) results =
     search_loop unicode_lower query_lower flds rest
       (if any_field_matches unicode_lower query_lower mapping flds then results @ [mapping]
        else results)"

definition default_search_fields :: "string list" where
  "default_search_fields = [''namaste_display'', ''icd11_display'', ''notes'']"

definition search_mappings ::
  "(string \<Rightarrow> string) \<Rightarrow> MappingEngine \<Rightarrow> string \<Rightarrow> string list option
     \<Rightarrow> CodeMapping list" where
  "search_mappings unicode_lower e query search_fields =
     (let flds = (case search_fields of None \<Rightarrow> default_search_fields | Some fs \<Rightarrow> fs);
          query_lower = str_lower unicode_lower query
      in search_loop unicode_lower query_lower flds (dict_values (mappings e)) [])"

section \<open>Concept-map grouping (mapping\_engine.py)\<close>

record concept_map_target =
  target_code :: string
  target_display :: string
  target_equivalence :: string

record concept_map_mapping =
  source_code :: string
  source_display :: string
  targets :: "concept_map_target list"

definition namaste_target :: "CodeMapping \<Rightarrow> concept_map_target" where
  "namaste_target mapping =
     \<lparr>target_code = namaste_code mapping, target_display = namaste_display mapping,
      target_equivalence = equivalence_value (equivalence mapping)\<rparr>"

definition icd11_target :: "CodeMapping \<Rightarrow> concept_map_target" where
  "icd11_target mapping =
     \<lparr>target_code = icd11_code mapping, target_display = icd11_display mapping,
      target_equivalence = equivalence_value (equivalence mapping)\<rparr>"

text \<open>
  The loop over \<open>self.reverse_mappings.items()\<close> with the set of processed codes.
  \<open>mappings[0]\<close> on an empty list raises IndexError.
\<close>

fun reverse_group_loop ::
  "string set \<Rightarrow> concept_map_mapping list \<Rightarrow> (string \<times> CodeMapping list) list
     \<Rightarrow> error + concept_map_mapping list" where
  "reverse_group_loop processed_icd11_codes concept_map_mappings [] =
     Inr concept_map_mappings"
| "reverse_group_loop processed_icd11_codes concept_map_mappings ((code, ms) # rest) =
     (if code \<notin> processed_icd11_codes then
        (case ms of
           [] \<Rightarrow> Inl IndexError
         | first # _ \<Rightarrow>
             reverse_group_loop (insert code processed_icd11_codes)
               (concept_map_mappings @
                  [\<lparr>source_code = code, source_display = icd11_display first,
                    targets = map namaste_target ms\<rparr>])
               rest)
      else reverse_group_loop processed_icd11_codes concept_map_mappings rest)"

definition get_mappings_for_concept_map ::
  "MappingEngine \<Rightarrow> string \<Rightarrow> string \<Rightarrow> error + concept_map_mapping list" where
  "get_mappings_for_concept_map e source_system target_system =
     (if source_system = namaste_system_uri \<and> target_system = icd11_system_uri then
        Inr (map (\<lambda>mapping.
                   \<lparr>source_code = namaste_code mapping,
                    source_display = namaste_display mapping,
                    targets = [icd11_target mapping]\<rparr>)
               (dict_values (mappings e)))
      else if source_system = icd11_system_uri \<and> target_system = namaste_system_uri then
        reverse_group_loop {} [] (reverse_mappings e)
      else Inr [])"

section \<open>Statistics and validation (mapping\_engine.py)\<close>

record statistics =
  total_mappings :: int
  by_traditional_system :: "(string \<times> int) list"
  by_equivalence :: "(string \<times> int) list"
  reverse_mappings_count :: int
  statistics_metadata :: metadata

text \<open>\<open>counts[k] = counts.get(k, 0) + 1\<close>\<close>

definition count_up :: "(string \<times> int) list \<Rightarrow> string \<Rightarrow> (string \<times> int) list" where
  "count_up counts k =
     dict_set counts k ((case map_of counts k of None \<Rightarrow> 0 | Some n \<Rightarrow> n) + 1)"

fun statistics_loop ::
  "(string \<times> int) list \<Rightarrow> (string \<times> int) list \<Rightarrow> CodeMapping list
     \<Rightarrow> (string \<times> int) list \<times> (string \<times> int) list" where
  "statistics_loop system_counts equivalence_counts [] = (system_counts, equivalence_counts)"
| "statistics_loop system_counts equivalence_counts (mapping # rest) =
     statistics_loop (count_up system_counts (namaste_system mapping))
       (count_up equivalence_counts (equivalence_value (equivalence mapping))) rest"

definition get_statistics :: "MappingEngine \<Rightarrow> statistics" where
  "get_statistics e =
     (case statistics_loop [] [] (dict_values (mappings e)) of
        (system_counts, equivalence_counts) \<Rightarrow>
          \<lparr>total_mappings = int (length (mappings e)),
           by_traditional_system = system_counts,
           by_equivalence = equivalence_counts,
           reverse_mappings_count = int (length (reverse_mappings e)),
           statistics_metadata = metadata e\<rparr>)"

text \<open>\<open>validate_mapping\<close> returns the list of complaints; the loader does not call it.\<close>

definition validate_mapping :: "CodeMapping \<Rightarrow> string list" where
  "validate_mapping mapping =
     (if namaste_code mapping = [] then [''Missing NAMASTE code''] else [])
     @ (if icd11_code mapping = [] then [''Missing ICD-11 code''] else [])
     @ (if namaste_display mapping = [] then [''Missing NAMASTE display name''] else [])
     @ (if icd11_display mapping = [] then [''Missing ICD-11 display name''] else [])
     @ (if namaste_system mapping \<notin> set [''Ayurveda'', ''Siddha'', ''Unani'']
        then [''Invalid traditional medicine system''] else [])"

section \<open>The translate response (models.py, fhir\_resources.py, main.py)\<close>

record Coding =
  coding_system :: string
  coding_code :: string
  coding_display :: "string option"

record ParameterPart =
  part_name :: string
  valueCode :: "string option"
  valueCoding :: "Coding option"

record Parameter =
  parameter_name :: string
  valueBoolean :: "bool option"
  valueString :: "string option"
  part :: "ParameterPart list option"

record ParametersResource =
  resourceType :: string
  parameter :: "Parameter list"

text \<open>
  \<open>build_translate_response\<close>. The match parameter is added only when \<open>result\<close> is true
  and the target code and target system are non-empty strings; the explanation only
  when it is a non-empty string.
\<close>

definition build_translate_response ::
  "bool \<Rightarrow> string \<Rightarrow> string option \<Rightarrow> string option \<Rightarrow> string option
     \<Rightarrow> EquivalenceEnum \<Rightarrow> string option \<Rightarrow> ParametersResource" where
  "build_translate_response result src_code tgt_code tgt_display tgt_system eqv ai_explanation =
     (let parameters0 =
            [\<lparr>parameter_name = ''result'', valueBoolean = Some result,
              valueString = None, part = None\<rparr>];
          parameters1 =
            (case (tgt_code, tgt_system) of
               (Some tc, Some ts) \<Rightarrow>
                 if result \<and> tc \<noteq> [] \<and> ts \<noteq> [] then
                   parameters0 @
                     [\<lparr>parameter_name = ''match'', valueBoolean = None, valueString = None,
                       part = Some
                         [\<lparr>part_name = ''equivalence'',
                            valueCode = Some (equivalence_value eqv), valueCoding = None\<rparr>,
                          \<lparr>part_name = ''concept'', valueCode = None,
                            valueCoding = Some \<lparr>coding_system = ts, coding_code = tc,
                                                 coding_display = tgt_display\<rparr>\<rparr>]\<rparr>]
                 else parameters0
             | _ \<Rightarrow> parameters0);
          parameters2 =
            (case ai_explanation of
               Some text \<Rightarrow>
                 if text \<noteq> [] then
                   parameters1 @
                     [\<lparr>parameter_name = ''ai_explanation'', valueBoolean = None,
                       valueString = Some text, part = None\<rparr>]
                 else parameters1
             | None \<Rightarrow> parameters1)
      in \<lparr>resourceType = ''Parameters'', parameter = parameters2\<rparr>)"

text \<open>
  The \<open>/translate\<close> handler of main.py after the check of the language code. The
  explanation collaborator is external: \<open>ai_explanation\<close> is the value the handler holds
  after asking it (\<open>None\<close> when it was not asked or failed). Reading a field of a
  primary mapping that is \<open>None\<close> raises AttributeError, which the handler turns into a
  status 500.
\<close>

datatype http_error = HTTP_500

definition translate_handler ::
  "MappingEngine \<Rightarrow> string \<Rightarrow> string \<Rightarrow> string \<Rightarrow> string option
     \<Rightarrow> http_error + ParametersResource" where
  "translate_handler e req_code req_system req_target_system ai_explanation =
     (case translate_code e req_code req_system req_target_system of
        (success, primary_mapping, all_mappings) \<Rightarrow>
          if \<not> success then
            Inr (build_translate_response False req_code None None None equivalent None)
          else
            (case primary_mapping of
               None \<Rightarrow> Inl HTTP_500
             | Some p \<Rightarrow>
                 if req_system = namaste_system_uri then
                   Inr (build_translate_response True req_code (Some (icd11_code p))
                          (Some (icd11_display p)) (Some req_target_system)
                          (equivalence p) ai_explanation)
                 else
                   Inr (build_translate_response True req_code (Some (namaste_code p))
                          (Some (namaste_display p)) (Some req_target_system)
                          (equivalence p) ai_explanation)))"

section \<open>The loaded index in closed form\<close>

text \<open>
  Definitions used to state what the loader builds: \<open>dict_append\<close> is the combined
  effect of creating the reverse list when the key is new and appending to it;
  \<open>index_record\<close> is one pass of the loop on a record that was built; \<open>records_of\<close>
  lists the records of the dataset that \<open>CodeMapping.__init__\<close> accepts, in dataset order.
\<close>

fun dict_append :: "('k \<times> 'v list) list \<Rightarrow> 'k \<Rightarrow> 'v \<Rightarrow> ('k \<times> 'v list) list" where
  "dict_append [] k v = [(k, [v])]"
| "dict_append ((k', l) # d) k v =
     (if k' = k then (k', l @ [v]) # d else (k', l) # dict_append d k v)"

definition index_record :: "MappingEngine \<Rightarrow> CodeMapping \<Rightarrow> MappingEngine" where
  "index_record e m =
     e\<lparr>mappings := dict_set (mappings e) (namaste_code m) m,
       reverse_mappings := dict_append (reverse_mappings e) (icd11_code m) m\<rparr>"

fun records_of :: "raw_record list \<Rightarrow> CodeMapping list" where
  "records_of [] = []"
| "records_of (d # ds) =
     (case CodeMapping_init d of Inl _ \<Rightarrow> records_of ds | Inr m \<Rightarrow> m # records_of ds)"

text \<open>The records of a dataset as the loader builds them, and the names of the keys
  that \<open>CodeMapping.__init__\<close> reads with a subscript.\<close>

definition loaded_records :: "dataset \<Rightarrow> CodeMapping list" where
  "loaded_records data = records_of (ds_mappings data)"

definition required_fields :: "string list" where
  "required_fields = [''namaste_code'', ''namaste_display'', ''namaste_system'',
                      ''icd11_code'', ''icd11_display'', ''equivalence'']"

text \<open>The group that the reverse grouping builds for one target code, from the records
  of the dataset.\<close>

definition records_with_target :: "CodeMapping list \<Rightarrow> string \<Rightarrow> CodeMapping list" where
  "records_with_target recs t = filter (\<lambda>m. icd11_code m = t) recs"

definition reverse_group :: "CodeMapping list \<Rightarrow> string \<Rightarrow> concept_map_mapping" where
  "reverse_group recs t =
     \<lparr>source_code = t,
      source_display = icd11_display (hd (records_with_target recs t)),
      targets = map namaste_target (records_with_target recs t)\<rparr>"

text \<open>The Parameters resource that carries the flag \<open>false\<close> and nothing else.\<close>

definition result_only :: ParametersResource where
  "result_only =
     \<lparr>resourceType = ''Parameters'',
      parameter = [\<lparr>parameter_name = ''result'', valueBoolean = Some False,
                    valueString = None, part = None\<rparr>]\<rparr>"

text \<open>A field value holds the query, case ignored: the value is present and not empty,
  and its lowering has the lowering of the query as a contiguous part.\<close>

definition field_holds :: "(string \<Rightarrow> string) \<Rightarrow> string option \<Rightarrow> string \<Rightarrow> bool" where
  "field_holds unicode_lower field_value query =
     (case field_value of
        None \<Rightarrow> False
      | Some s \<Rightarrow>
          s \<noteq> [] \<and> sublist (str_lower unicode_lower query) (str_lower unicode_lower s))"

text \<open>The upper-case form of an ASCII string, to state that it is searched for like
  the string itself.\<close>

definition char_upper :: "char \<Rightarrow> char" where
  "char_upper c =
     (let n = (of_char c :: nat) in if 97 \<le> n \<and> n \<le> 122 then char_of (n - 32) else c)"

text \<open>The examples hold ASCII text only, on which the parameter of \<open>str_lower\<close> is
  never consulted; they pass the function that returns its argument.\<close>

definition unused_lower :: "string \<Rightarrow> string" where
  "unused_lower s = s"

section \<open>Example datasets\<close>

definition mk_raw ::
  "string \<Rightarrow> string \<Rightarrow> string \<Rightarrow> string \<Rightarrow> string \<Rightarrow> string \<Rightarrow> raw_record" where
  "mk_raw nc nd ns ic idp ev =
     map_of [(''namaste_code'', nc), (''namaste_display'', nd), (''namaste_system'', ns),
             (''icd11_code'', ic), (''icd11_display'', idp), (''equivalence'', ev)]"

definition mk_cm ::
  "string \<Rightarrow> string \<Rightarrow> string \<Rightarrow> string \<Rightarrow> string \<Rightarrow> EquivalenceEnum \<Rightarrow> CodeMapping" where
  "mk_cm nc nd ns ic idp eq =
     \<lparr>namaste_code = nc, namaste_display = nd, namaste_system = ns, icd11_code = ic,
      icd11_display = idp, equivalence = eq, notes_f = None\<rparr>"

definition rec_pandu :: raw_record where
  "rec_pandu = mk_raw ''NAM-1001'' ''Pandu'' ''Ayurveda'' ''DB64.0''
                 ''Iron deficiency anaemia'' ''equivalent''"

definition cm_pandu :: CodeMapping where
  "cm_pandu = mk_cm ''NAM-1001'' ''Pandu'' ''Ayurveda'' ''DB64.0''
                ''Iron deficiency anaemia'' equivalent"

definition rec_veluppu :: raw_record where
  "rec_veluppu = mk_raw ''NAM-3001'' ''Veluppu Noi'' ''Siddha'' ''DB64.0''
                   ''Iron deficiency anaemia'' ''equivalent''"

definition cm_veluppu :: CodeMapping where
  "cm_veluppu = mk_cm ''NAM-3001'' ''Veluppu Noi'' ''Siddha'' ''DB64.0''
                  ''Iron deficiency anaemia'' equivalent"

definition rec_madhumeha :: raw_record where
  "rec_madhumeha = mk_raw ''NAM-2001'' ''Madhumeha'' ''Ayurveda'' ''5A11''
                     ''Type 2 diabetes mellitus'' ''equivalent''"

definition cm_madhumeha :: CodeMapping where
  "cm_madhumeha = mk_cm ''NAM-2001'' ''Madhumeha'' ''Ayurveda'' ''5A11''
                    ''Type 2 diabetes mellitus'' equivalent"

definition rec_prameha :: raw_record where
  "rec_prameha = mk_raw ''NAM-2001'' ''Prameha'' ''Ayurveda'' ''5A14''
                   ''Diabetes mellitus, unspecified'' ''wider''"

definition cm_prameha :: CodeMapping where
  "cm_prameha = mk_cm ''NAM-2001'' ''Prameha'' ''Ayurveda'' ''5A14''
                  ''Diabetes mellitus, unspecified'' wider"

definition rec_sthula :: raw_record where
  "rec_sthula = mk_raw ''NAM-2001'' ''Sthula Madhumeha'' ''Ayurveda'' ''5A11''
                  ''Type 2 diabetes mellitus'' ''narrower''"

definition cm_sthula :: CodeMapping where
  "cm_sthula = mk_cm ''NAM-2001'' ''Sthula Madhumeha'' ''Ayurveda'' ''5A11''
                 ''Type 2 diabetes mellitus'' narrower"

definition rec_jwara :: raw_record where
  "rec_jwara = mk_raw ''NAM-4001'' ''Jwara'' ''Homeopathy'' ''MG26''
                 ''Fever of other or unknown origin'' ''relatedto''"

definition cm_jwara :: CodeMapping where
  "cm_jwara = mk_cm ''NAM-4001'' ''Jwara'' ''Homeopathy'' ''MG26''
                ''Fever of other or unknown origin'' relatedto"

definition rec_similar :: raw_record where
  "rec_similar = mk_raw ''NAM-5001'' ''Kasa'' ''Unani'' ''MD12'' ''Cough'' ''similar''"

definition rec_blank :: raw_record where
  "rec_blank = mk_raw ''NAM-6001'' [] ''Ayurveda'' ''MG26'' [] ''unmatched''"

definition cm_blank :: CodeMapping where
  "cm_blank = mk_cm ''NAM-6001'' [] ''Ayurveda'' ''MG26'' [] unmatched"

text \<open>The record of the scenario alone.\<close>

definition ds_pandu :: dataset where
  "ds_pandu = \<lparr>ds_metadata = [], ds_mappings = [rec_pandu]\<rparr>"

definition engine_pandu :: MappingEngine where
  "engine_pandu = \<lparr>mappings = [(''NAM-1001'', cm_pandu)],
     reverse_mappings = [(''DB64.0'', [cm_pandu])], metadata = []\<rparr>"

text \<open>Two source codes with one target code.\<close>

definition ds_anaemia :: dataset where
  "ds_anaemia = \<lparr>ds_metadata = [], ds_mappings = [rec_pandu, rec_veluppu]\<rparr>"

definition engine_anaemia :: MappingEngine where
  "engine_anaemia =
     \<lparr>mappings = [(''NAM-1001'', cm_pandu), (''NAM-3001'', cm_veluppu)],
      reverse_mappings = [(''DB64.0'', [cm_pandu, cm_veluppu])], metadata = []\<rparr>"

text \<open>The same two records, the greater source code first.\<close>

definition ds_anaemia_swapped :: dataset where
  "ds_anaemia_swapped = \<lparr>ds_metadata = [], ds_mappings = [rec_veluppu, rec_pandu]\<rparr>"

definition engine_anaemia_swapped :: MappingEngine where
  "engine_anaemia_swapped =
     \<lparr>mappings = [(''NAM-3001'', cm_veluppu), (''NAM-1001'', cm_pandu)],
      reverse_mappings = [(''DB64.0'', [cm_veluppu, cm_pandu])], metadata = []\<rparr>"

text \<open>One source code twice, with two target codes.\<close>

definition ds_duplicate :: dataset where
  "ds_duplicate = \<lparr>ds_metadata = [], ds_mappings = [rec_madhumeha, rec_prameha]\<rparr>"

definition engine_duplicate :: MappingEngine where
  "engine_duplicate =
     \<lparr>mappings = [(''NAM-2001'', cm_prameha)],
      reverse_mappings = [(''5A11'', [cm_madhumeha]), (''5A14'', [cm_prameha])],
      metadata = []\<rparr>"

text \<open>One source code twice, with one target code.\<close>

definition ds_shared :: dataset where
  "ds_shared = \<lparr>ds_metadata = [], ds_mappings = [rec_madhumeha, rec_sthula]\<rparr>"

definition engine_shared :: MappingEngine where
  "engine_shared =
     \<lparr>mappings = [(''NAM-2001'', cm_sthula)],
      reverse_mappings = [(''5A11'', [cm_madhumeha, cm_sthula])], metadata = []\<rparr>"

text \<open>A system tag outside Ayurveda, Siddha and Unani.\<close>

definition ds_jwara :: dataset where
  "ds_jwara = \<lparr>ds_metadata = [], ds_mappings = [rec_jwara]\<rparr>"

definition engine_jwara :: MappingEngine where
  "engine_jwara = \<lparr>mappings = [(''NAM-4001'', cm_jwara)],
     reverse_mappings = [(''MG26'', [cm_jwara])], metadata = []\<rparr>"

text \<open>A good record followed by one whose equivalence is no member of the enumeration.\<close>

definition ds_similar :: dataset where
  "ds_similar = \<lparr>ds_metadata = [], ds_mappings = [rec_pandu, rec_similar]\<rparr>"

text \<open>A record whose two display texts are empty and that has no notes.\<close>

definition ds_blank :: dataset where
  "ds_blank = \<lparr>ds_metadata = [], ds_mappings = [rec_blank]\<rparr>"

definition engine_blank :: MappingEngine where
  "engine_blank = \<lparr>mappings = [(''NAM-6001'', cm_blank)],
     reverse_mappings = [(''MG26'', [cm_blank])], metadata = []\<rparr>"

section \<open>Properties\<close>

subsection \<open>The loader\<close>

lemma map_of_dict_set: "map_of (dict_set d k v) = (map_of d)(k \<mapsto> v)"
  by (induction d) (auto simp: fun_eq_iff)

lemma keys_dict_set:
  "map fst (dict_set d k v) = (if k \<in> fst ` set d then map fst d else map fst d @ [k])"
  by (induction d) force+

lemma dict_append_eq:
  "dict_append d k v = dict_set d k ((case map_of d k of None \<Rightarrow> [] | Some l \<Rightarrow> l) @ [v])"
  by (induction d) auto

lemma dict_set_idem: "map_of d k = None \<Longrightarrow> dict_set (dict_set d k v) k w = dict_set d k w"
  by (induction d) (auto split: if_splits)

lemma load_step_eq: "load_step e m = Inr (index_record e m)"
  by (cases "map_of (reverse_mappings e) (icd11_code m)")
     (simp_all add: load_step_def index_record_def dict_append_eq map_of_dict_set dict_set_idem)

lemma load_loop_Inr:
  "load_loop e ds = Inr e' \<Longrightarrow>
     e' = foldl index_record e (records_of ds) \<and> map CodeMapping_init ds = map Inr (records_of ds)"
  by (induction ds arbitrary: e) (auto simp: load_step_eq split: sum.splits)


lemma load_loop_Inl:
  "load_loop e ds = Inl err \<Longrightarrow>
     \<exists>pre d post. ds = pre @ d # post \<and> CodeMapping_init d = Inl err
        \<and> (\<forall>x\<in>set pre. \<not> isl (CodeMapping_init x))"
proof (induction ds arbitrary: e)
  case Nil
  then show ?case by simp
next
  case (Cons d ds)
  show ?case
  proof (cases "CodeMapping_init d")
    case (Inl a)
    with Cons.prems have "a = err" by simp
    with Inl have "d # ds = [] @ d # ds \<and> CodeMapping_init d = Inl err
        \<and> (\<forall>x\<in>set []. \<not> isl (CodeMapping_init x))" by simp
    then show ?thesis by blast
  next
    case (Inr m)
    with Cons.prems have "load_loop (index_record e m) ds = Inl err"
      by (simp add: load_step_eq)
    from Cons.IH [OF this] obtain pre x post where
      "ds = pre @ x # post" "CodeMapping_init x = Inl err" "\<forall>y\<in>set pre. \<not> isl (CodeMapping_init y)"
      by blast
    with Inr have "d # ds = (d # pre) @ x # post \<and> CodeMapping_init x = Inl err
        \<and> (\<forall>y\<in>set (d # pre). \<not> isl (CodeMapping_init y))" by simp
    then show ?thesis by blast
  qed
qed

lemma keys_forward_step:
  "map fst (mappings (index_record e m)) =
     (if namaste_code m \<in> set (map fst (mappings e)) then map fst (mappings e)
      else map fst (mappings e) @ [namaste_code m])"
  by (simp add: index_record_def keys_dict_set)

lemma keys_forward:
  "mappings e = [] \<Longrightarrow>
   map fst (mappings (foldl index_record e ms))
     = rev (remdups (rev (map namaste_code ms)))"
proof (induction ms rule: rev_induct)
  case Nil
  then show ?case by simp
next
  case (snoc m ms)
  have "set (map fst (mappings (foldl index_record e ms))) = set (map namaste_code ms)"
    using snoc by (simp only: set_rev set_remdups)
  then show ?case
    using snoc by (simp add: keys_forward_step del: set_map)
qed


lemma lookup_forward_step:
  "map_of (mappings (index_record e m)) = (map_of (mappings e))(namaste_code m \<mapsto> m)"
  by (simp add: index_record_def map_of_dict_set)

lemma lookup_reverse_step:
  "map_of (reverse_mappings (index_record e m)) =
     (map_of (reverse_mappings e))(icd11_code m \<mapsto>
        (case map_of (reverse_mappings e) (icd11_code m) of None \<Rightarrow> [] | Some l \<Rightarrow> l) @ [m])"
  by (simp add: index_record_def dict_append_eq map_of_dict_set)

lemma keys_reverse_step:
  "map fst (reverse_mappings (index_record e m)) =
     (if icd11_code m \<in> set (map fst (reverse_mappings e)) then map fst (reverse_mappings e)
      else map fst (reverse_mappings e) @ [icd11_code m])"
  by (simp add: index_record_def dict_append_eq keys_dict_set)

lemma filter_key_absent: "t \<notin> f ` set ms \<Longrightarrow> filter (\<lambda>m. f m = t) ms = []"
  by (induction ms) auto

lemma lookup_forward:
  "mappings e = [] \<Longrightarrow>
   map_of (mappings (foldl index_record e ms)) k
     = List.find (\<lambda>m. namaste_code m = k) (rev ms)"
proof (induction ms rule: rev_induct)
  case Nil
  then show ?case by simp
next
  case (snoc m ms)
  then show ?case by (simp add: lookup_forward_step)
qed

lemma lookup_reverse:
  "reverse_mappings e = [] \<Longrightarrow>
   map_of (reverse_mappings (foldl index_record e ms)) t
     = (if t \<in> set (map icd11_code ms) then Some (filter (\<lambda>m. icd11_code m = t) ms) else None)"
proof (induction ms arbitrary: t rule: rev_induct)
  case Nil
  then show ?case by simp
next
  case (snoc m ms)
  then show ?case by (auto simp: lookup_reverse_step filter_key_absent)
qed

lemma keys_reverse:
  "reverse_mappings e = [] \<Longrightarrow>
   map fst (reverse_mappings (foldl index_record e ms))
     = rev (remdups (rev (map icd11_code ms)))"
proof (induction ms rule: rev_induct)
  case Nil
  then show ?case by simp
next
  case (snoc m ms)
  have "set (map fst (reverse_mappings (foldl index_record e ms))) = set (map icd11_code ms)"
    using snoc by (simp only: set_rev set_remdups)
  then show ?case
    using snoc by (simp add: keys_reverse_step del: set_map)
qed

lemma find_append_split:
  "List.find P (xs @ ys) = (case List.find P xs of None \<Rightarrow> List.find P ys | Some x \<Rightarrow> Some x)"
  by (induction xs) auto

lemma find_rev_last:
  assumes "i < length ms" and "P (ms ! i)"
    and "\<forall>j. i < j \<and> j < length ms \<longrightarrow> \<not> P (ms ! j)"
  shows "List.find P (rev ms) = Some (ms ! i)"
proof -
  have split: "ms = take i ms @ ms ! i # drop (Suc i) ms"
    using assms(1) by (simp add: id_take_nth_drop)
  have "\<forall>x\<in>set (drop (Suc i) ms). \<not> P x"
  proof
    fix x assume "x \<in> set (drop (Suc i) ms)"
    then obtain k where "k < length (drop (Suc i) ms)" "x = drop (Suc i) ms ! k"
      by (auto simp: in_set_conv_nth)
    then have "x = ms ! (Suc i + k)" "Suc i + k < length ms" by auto
    with assms(3) show "\<not> P x" by auto
  qed
  then have none: "List.find P (rev (drop (Suc i) ms)) = None"
    by (simp add: find_None_iff)
  have "rev ms = rev (drop (Suc i) ms) @ ms ! i # rev (take i ms)"
    by (subst split) simp
  then show ?thesis
    using none assms(2) by (simp add: find_append_split)
qed

lemma first_of_filter:
  "(case filter P xs of [] \<Rightarrow> None | x # _ \<Rightarrow> Some x) = List.find P xs"
  by (induction xs) auto

lemma init_loaded:
  assumes "MappingEngine_init (Some data) = Inr e"
  shows "e = foldl index_record (empty_engine\<lparr>metadata := ds_metadata data\<rparr>)
               (records_of (ds_mappings data))"
    and "map CodeMapping_init (ds_mappings data) = map Inr (records_of (ds_mappings data))"
  using assms load_loop_Inr by (auto simp: MappingEngine_init_def)

lemma loaded_lookup_forward:
  assumes "MappingEngine_init (Some data) = Inr e"
  shows "map_of (mappings e) k =
           List.find (\<lambda>m. namaste_code m = k) (rev (records_of (ds_mappings data)))"
  using init_loaded(1) [OF assms] by (simp add: lookup_forward empty_engine_def)

lemma loaded_lookup_reverse:
  assumes "MappingEngine_init (Some data) = Inr e"
  shows "map_of (reverse_mappings e) t =
           (if t \<in> icd11_code ` set (records_of (ds_mappings data))
            then Some (filter (\<lambda>m. icd11_code m = t) (records_of (ds_mappings data)))
            else None)"
  using init_loaded(1) [OF assms] by (simp add: lookup_reverse empty_engine_def)


lemma equivalence_value_of: "EquivalenceEnum_of v = Some q \<Longrightarrow> equivalence_value q = v"
  by (auto simp: EquivalenceEnum_of_def split: if_splits)

lemma CodeMapping_init_fields:
  assumes "CodeMapping_init d = Inr m"
  shows "d ''namaste_code'' = Some (namaste_code m)"
    and "d ''namaste_display'' = Some (namaste_display m)"
    and "d ''namaste_system'' = Some (namaste_system m)"
    and "d ''icd11_code'' = Some (icd11_code m)"
    and "d ''icd11_display'' = Some (icd11_display m)"
    and "d ''equivalence'' = Some (equivalence_value (equivalence m))"
    and "d ''notes'' = notes_f m"
  using assms
  by (auto simp: CodeMapping_init_def equivalence_value_of split: option.splits)

lemma CodeMapping_init_Inl:
  assumes "CodeMapping_init d = Inl err"
  shows "(\<exists>f\<in>set required_fields. err = KeyError f \<and> d f = None)
       \<or> (\<exists>v. d ''equivalence'' = Some v \<and> EquivalenceEnum_of v = None \<and> err = ValueError v)"
  using assms
  by (auto simp: CodeMapping_init_def required_fields_def split: option.splits)

lemma CodeMapping_init_malformed:
  assumes "(\<exists>f\<in>set required_fields. d f = None)
       \<or> (\<exists>v. d ''equivalence'' = Some v \<and> EquivalenceEnum_of v = None)"
  shows "isl (CodeMapping_init d)"
  using assms
  by (auto simp: CodeMapping_init_def required_fields_def split: option.splits)

lemma loaded_nth:
  assumes "MappingEngine_init (Some data) = Inr e" and "i < length (ds_mappings data)"
  shows "CodeMapping_init (ds_mappings data ! i) = Inr (loaded_records data ! i)"
    and "length (loaded_records data) = length (ds_mappings data)"
proof -
  have eq: "map CodeMapping_init (ds_mappings data) = map Inr (loaded_records data)"
    using init_loaded(2) [OF assms(1)] by (simp add: loaded_records_def)
  from eq have len: "length (ds_mappings data) = length (loaded_records data)"
    by (rule map_eq_imp_length_eq)
  then show "length (loaded_records data) = length (ds_mappings data)" by simp
  have "map CodeMapping_init (ds_mappings data) ! i = map Inr (loaded_records data) ! i"
    using eq by simp
  then show "CodeMapping_init (ds_mappings data ! i) = Inr (loaded_records data ! i)"
    using assms(2) len by simp
qed


lemma sum_count_up: "sum_list (map snd (count_up counts k)) = sum_list (map snd counts) + 1"
  by (induction counts) (auto simp: count_up_def)

lemma statistics_loop_sums:
  "statistics_loop sc ec ms = (sc', ec') \<Longrightarrow>
     sum_list (map snd sc') = sum_list (map snd sc) + int (length ms)
   \<and> sum_list (map snd ec') = sum_list (map snd ec) + int (length ms)"
proof (induction ms arbitrary: sc ec)
  case Nil
  then show ?case by simp
next
  case (Cons m ms)
  from Cons.prems have
    "statistics_loop (count_up sc (namaste_system m))
       (count_up ec (equivalence_value (equivalence m))) ms = (sc', ec')"
    by simp
  from Cons.IH [OF this] show ?case by (simp add: sum_count_up)
qed

lemma sum_lengths_dict_append:
  "sum_list (map (\<lambda>(k, l). length l) (dict_append d k v))
     = Suc (sum_list (map (\<lambda>(k, l). length l) d))"
  by (induction d) auto

lemma sum_lengths_reverse:
  "reverse_mappings e = [] \<Longrightarrow>
   sum_list (map (\<lambda>(k, l). length l) (reverse_mappings (foldl index_record e ms))) = length ms"
  by (induction ms rule: rev_induct) (simp_all add: index_record_def sum_lengths_dict_append)

lemma length_forward:
  assumes "mappings e = []"
  shows "length (mappings (foldl index_record e ms)) = card (set (map namaste_code ms))"
proof -
  have "length (mappings (foldl index_record e ms))
          = length (map fst (mappings (foldl index_record e ms)))" by simp
  also have "\<dots> = length (remdups (rev (map namaste_code ms)))"
    by (simp only: keys_forward [OF assms] length_rev)
  also have "\<dots> = card (set (map namaste_code ms))"
    by (simp only: length_remdups_card_conv set_rev)
  finally show ?thesis .
qed

lemma card_less_if_repeated:
  assumes "i < j" and "j < length xs" and "xs ! i = xs ! j"
  shows "card (set xs) < length xs"
proof -
  have "\<not> distinct xs"
  proof
    assume "distinct xs"
    then have "i = j"
      using assms by (simp add: nth_eq_iff_index_eq)
    with assms(1) show False by simp
  qed
  then have "card (set xs) \<noteq> length xs"
    using card_distinct by blast
  with card_length [of xs] show ?thesis by simp
qed

lemma dict_closed_form:
  "distinct (map fst d) \<Longrightarrow> d = map (\<lambda>k. (k, the (map_of d k))) (map fst d)"
proof (induction d)
  case Nil
  then show ?case by simp
next
  case (Cons kv d)
  obtain k v where kv: "kv = (k, v)" by (cases kv)
  from Cons.prems kv have notin: "k \<notin> fst ` set d" and dist: "distinct (map fst d)"
    by auto
  have "map (\<lambda>k'. (k', the (map_of ((k, v) # d) k'))) (map fst d)
          = map (\<lambda>k'. (k', the (map_of d k'))) (map fst d)"
    using notin by (intro map_cong) auto
  with Cons.IH [OF dist] show ?case
    by (simp add: kv)
qed

lemma reverse_group_loop_distinct:
  assumes "distinct (map fst d)"
    and "\<forall>(k, ms)\<in>set d. ms \<noteq> []"
    and "processed \<inter> fst ` set d = {}"
  shows "reverse_group_loop processed out d
           = Inr (out @ map (\<lambda>(k, ms). \<lparr>source_code = k, source_display = icd11_display (hd ms),
                                         targets = map namaste_target ms\<rparr>) d)"
  using assms
proof (induction d arbitrary: processed out)
  case Nil
  then show ?case by simp
next
  case (Cons kv d)
  obtain k ms where kv: "kv = (k, ms)" by (cases kv)
  from Cons.prems kv obtain first others where ms: "ms = first # others"
    by (cases ms) auto
  from Cons.prems kv have fresh: "k \<notin> processed" by auto
  from Cons.prems kv have next_ok: "distinct (map fst d)" "\<forall>(k, ms)\<in>set d. ms \<noteq> []"
    "insert k processed \<inter> fst ` set d = {}"
    by auto
  show ?case
    using Cons.IH [OF next_ok] fresh by (simp add: kv ms)
qed

lemma loaded_reverse_index:
  assumes "MappingEngine_init (Some data) = Inr e"
  shows "map fst (reverse_mappings e) = rev (remdups (rev (map icd11_code (loaded_records data))))"
    and "distinct (map fst (reverse_mappings e))"
    and "reverse_mappings e
           = map (\<lambda>t. (t, records_with_target (loaded_records data) t))
               (rev (remdups (rev (map icd11_code (loaded_records data)))))"
proof -
  let ?recs = "loaded_records data"
  let ?keys = "rev (remdups (rev (map icd11_code ?recs)))"
  have e: "e = foldl index_record (empty_engine\<lparr>metadata := ds_metadata data\<rparr>) ?recs"
    using init_loaded(1) [OF assms] by (simp add: loaded_records_def)
  show keys: "map fst (reverse_mappings e) = ?keys"
    by (subst e) (simp add: keys_reverse empty_engine_def)
  then show dist: "distinct (map fst (reverse_mappings e))" by simp
  have "reverse_mappings e = map (\<lambda>k. (k, the (map_of (reverse_mappings e) k))) ?keys"
    using dict_closed_form [OF dist] keys by simp
  also have "\<dots> = map (\<lambda>t. (t, records_with_target ?recs t)) ?keys"
    by (intro map_cong)
       (auto simp: loaded_lookup_reverse [OF assms] loaded_records_def records_with_target_def)
  finally show "reverse_mappings e = map (\<lambda>t. (t, records_with_target ?recs t)) ?keys" .
qed

lemma build_translate_response_False:
  "build_translate_response False src_code tgt_code tgt_display tgt_system eqv ai =
     \<lparr>resourceType = ''Parameters'',
      parameter =
        \<lparr>parameter_name = ''result'', valueBoolean = Some False,
          valueString = None, part = None\<rparr>
        # (if truthy ai
           then [\<lparr>parameter_name = ''ai_explanation'', valueBoolean = None,
                   valueString = ai, part = None\<rparr>]
           else [])\<rparr>"
  by (simp add: build_translate_response_def truthy_def Let_def split: option.splits)

lemma str_contains_sublist: "str_contains haystack needle \<longleftrightarrow> sublist needle haystack"
  by (induction haystack) (simp_all add: sublist_Cons_right)

lemma search_loop_filter:
  "search_loop ul q flds ms results = results @ filter (\<lambda>m. any_field_matches ul q m flds) ms"
  by (induction ms arbitrary: results) simp_all

lemma search_mappings_filter:
  "search_mappings ul e q None =
     filter (\<lambda>m. any_field_matches ul (str_lower ul q) m default_search_fields)
       (dict_values (mappings e))"
  by (simp add: search_mappings_def search_loop_filter)

lemma default_fields_match:
  "any_field_matches ul (str_lower ul q) m default_search_fields \<longleftrightarrow>
     field_holds ul (Some (namaste_display m)) q \<or> field_holds ul (Some (icd11_display m)) q
     \<or> field_holds ul (notes_f m) q"
  by (cases "notes_f m")
     (auto simp: default_search_fields_def getattr_CodeMapping_def field_holds_def
       str_contains_sublist)

lemma set_dict_set: "set (dict_set d k v) \<subseteq> insert (k, v) (set d)"
  by (induction d) (auto split: if_splits)

lemma forward_values_keyed:
  "mappings e = [] \<Longrightarrow>
   \<forall>(k, m)\<in>set (mappings (foldl index_record e ms)). namaste_code m = k"
proof (induction ms rule: rev_induct)
  case Nil
  then show ?case by simp
next
  case (snoc x ms)
  have "set (mappings (index_record (foldl index_record e ms) x))
          \<subseteq> insert (namaste_code x, x) (set (mappings (foldl index_record e ms)))"
    by (simp add: index_record_def set_dict_set)
  with snoc show ?case by auto
qed

lemma keyed_values: "\<forall>(k, m)\<in>set d. f m = k \<Longrightarrow> map f (map snd d) = map fst d"
  by (induction d) auto

lemma char_lower_upper: "char_lower (char_upper c) = char_lower c"
proof (cases "97 \<le> (of_char c :: nat) \<and> (of_char c :: nat) \<le> 122")
  case True
  define n where "n = (of_char c :: nat)"
  have c: "c = char_of n" by (simp add: n_def)
  have n: "97 \<le> n" "n \<le> 122" using True by (simp_all add: n_def)
  then have "n - 32 < 256" "65 \<le> n - 32" "n - 32 \<le> 90" "n - 32 + 32 = n" "\<not> n \<le> 90"
    by arith+
  then have "char_lower (char_of (n - 32)) = char_of n" "char_lower c = c"
    by (simp_all add: char_lower_def Let_def n_def [symmetric])
  moreover have "char_upper c = char_of (n - 32)"
    using n by (simp add: char_upper_def Let_def n_def [symmetric])
  ultimately show ?thesis using c by simp
next
  case False
  then show ?thesis by (auto simp: char_upper_def Let_def)
qed

lemma ascii_char_upper: "(of_char c :: nat) < 128 \<Longrightarrow> (of_char (char_upper c) :: nat) < 128"
  by (auto simp: char_upper_def Let_def)

lemma is_ascii_upper: "is_ascii s \<Longrightarrow> is_ascii (map char_upper s)"
  by (simp add: is_ascii_def list_all_iff ascii_char_upper)

lemma str_lower_upper:
  "is_ascii s \<Longrightarrow> str_lower ul (map char_upper s) = str_lower ul s"
  by (simp add: str_lower_def is_ascii_upper char_lower_upper)

subsection \<open>Example evaluations\<close>

lemma mk_raw_init:
  "EquivalenceEnum_of ev = Some eq \<Longrightarrow>
   CodeMapping_init (mk_raw nc nd ns ic idp ev) = Inr (mk_cm nc nd ns ic idp eq)"
  by (simp add: CodeMapping_init_def mk_raw_def mk_cm_def)

lemma init_rec_pandu: "CodeMapping_init rec_pandu = Inr cm_pandu"
  unfolding rec_pandu_def cm_pandu_def
  by (rule mk_raw_init) (simp add: EquivalenceEnum_of_def)

lemma init_rec_veluppu: "CodeMapping_init rec_veluppu = Inr cm_veluppu"
  unfolding rec_veluppu_def cm_veluppu_def
  by (rule mk_raw_init) (simp add: EquivalenceEnum_of_def)

lemma init_rec_madhumeha: "CodeMapping_init rec_madhumeha = Inr cm_madhumeha"
  unfolding rec_madhumeha_def cm_madhumeha_def
  by (rule mk_raw_init) (simp add: EquivalenceEnum_of_def)

lemma init_rec_prameha: "CodeMapping_init rec_prameha = Inr cm_prameha"
  unfolding rec_prameha_def cm_prameha_def
  by (rule mk_raw_init) (simp add: EquivalenceEnum_of_def)

lemma init_rec_sthula: "CodeMapping_init rec_sthula = Inr cm_sthula"
  unfolding rec_sthula_def cm_sthula_def
  by (rule mk_raw_init) (simp add: EquivalenceEnum_of_def)

lemma init_rec_jwara: "CodeMapping_init rec_jwara = Inr cm_jwara"
  unfolding rec_jwara_def cm_jwara_def
  by (rule mk_raw_init) (simp add: EquivalenceEnum_of_def)

lemma init_rec_blank: "CodeMapping_init rec_blank = Inr cm_blank"
  unfolding rec_blank_def cm_blank_def
  by (rule mk_raw_init) (simp add: EquivalenceEnum_of_def)

lemma init_rec_similar: "CodeMapping_init rec_similar = Inl (ValueError ''similar'')"
  by (simp add: rec_similar_def CodeMapping_init_def mk_raw_def EquivalenceEnum_of_def)

lemmas example_records =
  cm_pandu_def cm_veluppu_def cm_madhumeha_def cm_prameha_def cm_sthula_def cm_jwara_def
  cm_blank_def mk_cm_def

lemmas example_loading =
  MappingEngine_init_def load_step_eq index_record_def empty_engine_def
  init_rec_pandu init_rec_veluppu init_rec_madhumeha init_rec_prameha init_rec_sthula
  init_rec_jwara init_rec_blank init_rec_similar

lemma init_pandu: "MappingEngine_init (Some ds_pandu) = Inr engine_pandu"
  by (simp add: ds_pandu_def engine_pandu_def example_loading example_records)

lemma init_anaemia: "MappingEngine_init (Some ds_anaemia) = Inr engine_anaemia"
  by (simp add: ds_anaemia_def engine_anaemia_def example_loading example_records)

lemma init_anaemia_swapped:
  "MappingEngine_init (Some ds_anaemia_swapped) = Inr engine_anaemia_swapped"
  by (simp add: ds_anaemia_swapped_def engine_anaemia_swapped_def example_loading
      example_records)

lemma init_duplicate: "MappingEngine_init (Some ds_duplicate) = Inr engine_duplicate"
  by (simp add: ds_duplicate_def engine_duplicate_def example_loading example_records)

lemma init_shared: "MappingEngine_init (Some ds_shared) = Inr engine_shared"
  by (simp add: ds_shared_def engine_shared_def example_loading example_records)

lemma init_jwara: "MappingEngine_init (Some ds_jwara) = Inr engine_jwara"
  by (simp add: ds_jwara_def engine_jwara_def example_loading example_records)

lemma init_blank: "MappingEngine_init (Some ds_blank) = Inr engine_blank"
  by (simp add: ds_blank_def engine_blank_def example_loading example_records)

lemma init_similar: "MappingEngine_init (Some ds_similar) = Inl (ValueError ''similar'')"
  by (simp add: ds_similar_def example_loading example_records)

lemma loaded_records_examples:
  "loaded_records ds_pandu = [cm_pandu]"
  "loaded_records ds_anaemia = [cm_pandu, cm_veluppu]"
  "loaded_records ds_anaemia_swapped = [cm_veluppu, cm_pandu]"
  "loaded_records ds_duplicate = [cm_madhumeha, cm_prameha]"
  "loaded_records ds_shared = [cm_madhumeha, cm_sthula]"
  by (simp_all add: loaded_records_def ds_pandu_def ds_anaemia_def ds_anaemia_swapped_def
      ds_duplicate_def ds_shared_def example_loading)

lemma system_uris_differ: "namaste_system_uri \<noteq> icd11_system_uri"
  by (simp add: namaste_system_uri_def icd11_system_uri_def)

lemma statistics_anaemia:
  "get_statistics engine_anaemia =
     \<lparr>total_mappings = 2,
      by_traditional_system = [(''Ayurveda'', 1), (''Siddha'', 1)],
      by_equivalence = [(''equivalent'', 2)],
      reverse_mappings_count = 1,
      statistics_metadata = []\<rparr>"
  by (simp add: get_statistics_def engine_anaemia_def dict_values_def count_up_def
      example_records)

lemma search_anaemia_upper:
  "search_mappings unused_lower engine_anaemia_swapped ''ANAEMIA'' None
     = [cm_veluppu, cm_pandu]"
  by code_simp

lemma search_anaemia_swapped:
  "search_mappings unused_lower engine_anaemia_swapped ''anaemia'' None
     = [cm_veluppu, cm_pandu]"
  by code_simp

lemma search_diabetes:
  "search_mappings unused_lower engine_duplicate ''diabetes'' None = [cm_prameha]"
  by code_simp

subsection \<open>Claims\<close>

text \<open>
  C3. For every code and every pair of system URIs that is neither (traditional-medicine
  URI, classification URI) nor (classification URI, traditional-medicine URI),
  \<open>translate_code\<close> returns the not-found result: success flag false, no primary
  mapping, an empty list. A code absent from the forward index, translated in the
  forward direction, gives the very same result.
\<close>

theorem translate_code_unsupported_direction:
  assumes "\<not> (source_system = namaste_system_uri \<and> target_system = icd11_system_uri)"
    and "\<not> (source_system = icd11_system_uri \<and> target_system = namaste_system_uri)"
    and "map_of (mappings e) absent = None"
  shows "translate_code e code source_system target_system = (False, None, [])
    \<and> translate_code e code source_system target_system
        = translate_code e absent namaste_system_uri icd11_system_uri"
  using assms by (auto simp: translate_code_def translate_namaste_to_icd11_def)

theorem translate_code_unsupported_direction_witness:
  "translate_code engine_pandu ''NAM-1001'' namaste_system_uri ''http://loinc.org''
     = (False, None, [])
   \<and> translate_code engine_pandu ''NAM-1001'' namaste_system_uri ''http://loinc.org''
     = translate_code engine_pandu ''NO-SUCH-CODE'' namaste_system_uri icd11_system_uri"
  by (rule translate_code_unsupported_direction)
    (simp_all add: namaste_system_uri_def icd11_system_uri_def engine_pandu_def)

text \<open>
  C1, as amended. Let the dataset load, and let the record at position \<open>i\<close> be built as
  \<open>m\<close>, with no later record of the dataset carrying the same source code. Then
  translating \<open>m\<close>'s source code from the traditional-medicine system to the
  classification system succeeds with \<open>m\<close> as the primary and only mapping, and the target
  code, target display and equivalence of \<open>m\<close> are the ones written in the record.
\<close>

theorem translate_forward_round_trip:
  assumes "MappingEngine_init (Some data) = Inr e"
    and "i < length (ds_mappings data)"
    and "CodeMapping_init (ds_mappings data ! i) = Inr m"
    and "\<forall>j. i < j \<and> j < length (ds_mappings data) \<longrightarrow>
           (ds_mappings data ! j) ''namaste_code'' \<noteq> Some (namaste_code m)"
  shows "translate_code e (namaste_code m) namaste_system_uri icd11_system_uri
           = (True, Some m, [m])
       \<and> (ds_mappings data ! i) ''icd11_code'' = Some (icd11_code m)
       \<and> (ds_mappings data ! i) ''icd11_display'' = Some (icd11_display m)
       \<and> (ds_mappings data ! i) ''equivalence'' = Some (equivalence_value (equivalence m))"
proof -
  let ?recs = "loaded_records data"
  have len: "length ?recs = length (ds_mappings data)"
    using loaded_nth(2) [OF assms(1,2)] .
  have m: "?recs ! i = m"
    using loaded_nth(1) [OF assms(1,2)] assms(3) by simp
  have later: "\<forall>j. i < j \<and> j < length ?recs \<longrightarrow> namaste_code (?recs ! j) \<noteq> namaste_code (?recs ! i)"
  proof (intro allI impI)
    fix j assume j: "i < j \<and> j < length ?recs"
    then have "CodeMapping_init (ds_mappings data ! j) = Inr (?recs ! j)"
      using loaded_nth(1) [OF assms(1)] len by simp
    then have "(ds_mappings data ! j) ''namaste_code'' = Some (namaste_code (?recs ! j))"
      by (rule CodeMapping_init_fields(1))
    with assms(4) j len m show "namaste_code (?recs ! j) \<noteq> namaste_code (?recs ! i)"
      by auto
  qed
  have "List.find (\<lambda>x. namaste_code x = namaste_code (?recs ! i)) (rev ?recs) = Some (?recs ! i)"
    using assms(2) len later by (intro find_rev_last) auto
  then have "map_of (mappings e) (namaste_code m) = Some m"
    using m by (simp add: loaded_lookup_forward [OF assms(1)] loaded_records_def)
  then have "translate_code e (namaste_code m) namaste_system_uri icd11_system_uri
           = (True, Some m, [m])"
    by (simp add: translate_code_def translate_namaste_to_icd11_def)
  then show ?thesis
    using CodeMapping_init_fields(4,5,6) [OF assms(3)] by simp
qed

theorem translate_forward_round_trip_witness:
  "MappingEngine_init (Some ds_anaemia) = Inr engine_anaemia
   \<and> ds_mappings ds_anaemia ! 0 = rec_pandu
   \<and> translate_code engine_anaemia ''NAM-1001'' namaste_system_uri icd11_system_uri
       = (True, Some cm_pandu, [cm_pandu])
   \<and> rec_pandu ''icd11_code'' = Some ''DB64.0''
   \<and> rec_pandu ''icd11_display'' = Some ''Iron deficiency anaemia''
   \<and> rec_pandu ''equivalence'' = Some ''equivalent''"
proof -
  have nth0: "ds_mappings ds_anaemia ! 0 = rec_pandu"
    by (simp add: ds_anaemia_def)
  have len: "(0::nat) < length (ds_mappings ds_anaemia)"
    by (simp add: ds_anaemia_def)
  have built: "CodeMapping_init (ds_mappings ds_anaemia ! 0) = Inr cm_pandu"
    by (simp add: nth0 init_rec_pandu)
  have later: "\<forall>j. 0 < j \<and> j < length (ds_mappings ds_anaemia) \<longrightarrow>
           (ds_mappings ds_anaemia ! j) ''namaste_code'' \<noteq> Some (namaste_code cm_pandu)"
  proof (intro allI impI)
    fix j :: nat assume "0 < j \<and> j < length (ds_mappings ds_anaemia)"
    then have "j = 1" by (simp add: ds_anaemia_def)
    then show "(ds_mappings ds_anaemia ! j) ''namaste_code'' \<noteq> Some (namaste_code cm_pandu)"
      by (simp add: ds_anaemia_def rec_veluppu_def mk_raw_def example_records)
  qed
  show ?thesis
    using translate_forward_round_trip [OF init_anaemia len built later] nth0
    by (simp add: example_records init_anaemia)
qed

text \<open>
  C1 as stated fails where a source code occurs twice: the first record of
  \<open>ds_duplicate\<close> maps NAM-2001 to 5A11, and translating NAM-2001 returns the second
  record, with target 5A14, another display and another equivalence.
\<close>

theorem translate_forward_round_trip_counterexample:
  "MappingEngine_init (Some ds_duplicate) = Inr engine_duplicate
   \<and> ds_mappings ds_duplicate ! 0 = rec_madhumeha
   \<and> rec_madhumeha ''namaste_code'' = Some ''NAM-2001''
   \<and> rec_madhumeha ''icd11_code'' = Some ''5A11''
   \<and> rec_madhumeha ''icd11_display'' = Some ''Type 2 diabetes mellitus''
   \<and> rec_madhumeha ''equivalence'' = Some ''equivalent''
   \<and> translate_code engine_duplicate ''NAM-2001'' namaste_system_uri icd11_system_uri
       = (True, Some cm_prameha, [cm_prameha])
   \<and> icd11_code cm_prameha = ''5A14''
   \<and> icd11_display cm_prameha = ''Diabetes mellitus, unspecified''
   \<and> equivalence_value (equivalence cm_prameha) = ''wider''"
  by (simp add: init_duplicate)
     (simp add: ds_duplicate_def rec_madhumeha_def mk_raw_def translate_code_def
       translate_namaste_to_icd11_def engine_duplicate_def example_records)

text \<open>
  C2. Let the dataset load and let \<open>R\<close> be one of its records, built as \<open>m\<close>. Translating
  \<open>m\<close>'s target code from the classification system to the traditional-medicine system
  succeeds; the returned list is the reverse-index list of that target code, which is
  the records of the dataset with that target code in load order, and \<open>m\<close> is among them;
  the primary mapping is the first of them, the earliest record loaded with that target
  code.
\<close>

theorem translate_reverse_round_trip:
  assumes "MappingEngine_init (Some data) = Inr e"
    and "R \<in> set (ds_mappings data)"
    and "CodeMapping_init R = Inr m"
  shows "translate_code e (icd11_code m) icd11_system_uri namaste_system_uri
         = (True,
            List.find (\<lambda>x. icd11_code x = icd11_code m) (loaded_records data),
            filter (\<lambda>x. icd11_code x = icd11_code m) (loaded_records data))
       \<and> m \<in> set (filter (\<lambda>x. icd11_code x = icd11_code m) (loaded_records data))
       \<and> map_of (reverse_mappings e) (icd11_code m)
         = Some (filter (\<lambda>x. icd11_code x = icd11_code m) (loaded_records data))"
proof -
  let ?recs = "loaded_records data"
  let ?L = "filter (\<lambda>x. icd11_code x = icd11_code m) ?recs"
  have "Inr m \<in> set (map CodeMapping_init (ds_mappings data))"
    using assms(2,3) by force
  then have "Inr m \<in> set (map Inr ?recs :: (error + CodeMapping) list)"
    using init_loaded(2) [OF assms(1)] by (simp add: loaded_records_def)
  then have "m \<in> set ?recs" by auto
  then have mem: "m \<in> set ?L" by simp
  have ne: "?L \<noteq> []" using length_pos_if_in_set [OF mem] by auto
  have look: "map_of (reverse_mappings e) (icd11_code m) = Some ?L"
    using \<open>m \<in> set ?recs\<close> by (simp add: loaded_lookup_reverse [OF assms(1)] loaded_records_def)
  have uris: "icd11_system_uri \<noteq> namaste_system_uri"
    by (simp add: icd11_system_uri_def namaste_system_uri_def)
  have "translate_code e (icd11_code m) icd11_system_uri namaste_system_uri
         = (True, (case ?L of [] \<Rightarrow> None | x # _ \<Rightarrow> Some x), ?L)"
    using look ne uris by (simp add: translate_code_def translate_icd11_to_namaste_def)
  then show ?thesis using mem look by (simp only: first_of_filter simp_thms)
qed

theorem translate_reverse_round_trip_witness:
  "translate_code engine_anaemia ''DB64.0'' icd11_system_uri namaste_system_uri
     = (True, Some cm_pandu, [cm_pandu, cm_veluppu])
   \<and> cm_veluppu \<in> set [cm_pandu, cm_veluppu]
   \<and> map_of (reverse_mappings engine_anaemia) ''DB64.0'' = Some [cm_pandu, cm_veluppu]"
proof -
  have mem: "rec_veluppu \<in> set (ds_mappings ds_anaemia)"
    by (simp add: ds_anaemia_def)
  show ?thesis
    using translate_reverse_round_trip [OF init_anaemia mem init_rec_veluppu]
    by (simp add: loaded_records_examples example_records)
qed

text \<open>
  C4, as amended. If some record of the dataset lacks one of the six required keys or
  carries an equivalence value outside the enumeration, loading fails: the constructor
  raises the exception of the first record that cannot be built, a KeyError with the
  first missing key or a ValueError with the unrecognised value, and no engine exists.
\<close>

theorem load_fails_on_malformed_record:
  assumes "d \<in> set (ds_mappings data)"
    and "(\<exists>f\<in>set required_fields. d f = None)
       \<or> (\<exists>v. d ''equivalence'' = Some v \<and> EquivalenceEnum_of v = None)"
  shows "\<exists>pre x post err.
           ds_mappings data = pre @ x # post
         \<and> (\<forall>y\<in>set pre. \<not> isl (CodeMapping_init y))
         \<and> CodeMapping_init x = Inl err
         \<and> MappingEngine_init (Some data) = Inl err
         \<and> ((\<exists>f\<in>set required_fields. err = KeyError f \<and> x f = None)
            \<or> (\<exists>v. x ''equivalence'' = Some v \<and> EquivalenceEnum_of v = None
                    \<and> err = ValueError v))"
proof (cases "MappingEngine_init (Some data)")
  case (Inr e)
  have "CodeMapping_init d \<in> set (map CodeMapping_init (ds_mappings data))"
    using assms(1) by simp
  then have "CodeMapping_init d \<in> set (map Inr (records_of (ds_mappings data)) :: (error + CodeMapping) list)"
    using init_loaded(2) [OF Inr] by simp
  then have "\<not> isl (CodeMapping_init d)" by auto
  with CodeMapping_init_malformed [OF assms(2)] show ?thesis by simp
next
  case (Inl err)
  then have "load_loop (empty_engine\<lparr>metadata := ds_metadata data\<rparr>) (ds_mappings data) = Inl err"
    by (simp add: MappingEngine_init_def)
  from load_loop_Inl [OF this] obtain pre x post where
    split: "ds_mappings data = pre @ x # post"
    and x: "CodeMapping_init x = Inl err"
    and pre: "\<forall>y\<in>set pre. \<not> isl (CodeMapping_init y)"
    by blast
  from CodeMapping_init_Inl [OF x] split x pre Inl show ?thesis by blast
qed

theorem load_fails_on_malformed_record_witness:
  "rec_similar \<in> set (ds_mappings ds_similar)
   \<and> rec_similar ''equivalence'' = Some ''similar''
   \<and> EquivalenceEnum_of ''similar'' = None
   \<and> MappingEngine_init (Some ds_similar) = Inl (ValueError ''similar'')
   \<and> (\<exists>pre x post err.
      ds_mappings ds_similar = pre @ x # post
    \<and> (\<forall>y\<in>set pre. \<not> isl (CodeMapping_init y))
    \<and> CodeMapping_init x = Inl err
    \<and> MappingEngine_init (Some ds_similar) = Inl err
    \<and> ((\<exists>f\<in>set required_fields. err = KeyError f \<and> x f = None)
       \<or> (\<exists>v. x ''equivalence'' = Some v \<and> EquivalenceEnum_of v = None
               \<and> err = ValueError v)))"
proof -
  have mem: "rec_similar \<in> set (ds_mappings ds_similar)"
    by (simp add: ds_similar_def)
  have bad: "(\<exists>f\<in>set required_fields. rec_similar f = None)
       \<or> (\<exists>v. rec_similar ''equivalence'' = Some v \<and> EquivalenceEnum_of v = None)"
    by (simp add: rec_similar_def mk_raw_def EquivalenceEnum_of_def)
  have val: "rec_similar ''equivalence'' = Some ''similar'' \<and> EquivalenceEnum_of ''similar'' = None"
    by (simp add: rec_similar_def mk_raw_def EquivalenceEnum_of_def)
  show ?thesis
    using load_fails_on_malformed_record [OF mem bad] mem val init_similar by blast
qed

text \<open>
  C4 as stated fails for the system tag: the loader does not look at it. A dataset whose
  record is tagged Homeopathy loads, although \<open>validate_mapping\<close> would complain about
  the record.
\<close>

theorem load_accepts_unknown_system_tag_counterexample:
  "rec_jwara ''namaste_system'' = Some ''Homeopathy''
   \<and> ''Homeopathy'' \<notin> set [''Ayurveda'', ''Siddha'', ''Unani'']
   \<and> ds_mappings ds_jwara = [rec_jwara]
   \<and> MappingEngine_init (Some ds_jwara) = Inr engine_jwara
   \<and> validate_mapping cm_jwara = [''Invalid traditional medicine system'']"
  by (simp add: init_jwara)
     (simp add: rec_jwara_def mk_raw_def ds_jwara_def validate_mapping_def example_records)


text \<open>
  C6. For every engine, so for every loaded dataset, the statistics satisfy: the
  per-system counts add up to \<open>total_mappings\<close>, and the per-equivalence counts add up
  to \<open>total_mappings\<close>.
\<close>

theorem statistics_sums_equal_total:
  "sum_list (map snd (by_traditional_system (get_statistics e))) = total_mappings (get_statistics e)
   \<and> sum_list (map snd (by_equivalence (get_statistics e))) = total_mappings (get_statistics e)"
proof -
  obtain sc ec where loop: "statistics_loop [] [] (dict_values (mappings e)) = (sc, ec)"
    by (cases "statistics_loop [] [] (dict_values (mappings e))") auto
  from statistics_loop_sums [OF loop]
  have "sum_list (map snd sc) = int (length (mappings e))
      \<and> sum_list (map snd ec) = int (length (mappings e))"
    by (simp add: dict_values_def)
  then show ?thesis
    by (simp add: get_statistics_def loop)
qed

text \<open>
  C10. Let the dataset load, and let the records at positions \<open>i < j\<close> carry the same
  source code, \<open>j\<close> being the last position with that code. Then the forward index maps
  the code to the record at \<open>j\<close> only; the reverse index still holds, under the target
  code of each of the two records, every record with that target code in load order; the
  reverse translation of the earlier record's target code returns the earlier record; and
  the lists of the reverse index hold more records in total than the forward index,
  whose size is what the statistics report as \<open>total_mappings\<close>.
\<close>

theorem duplicate_source_code_last_write_wins:
  assumes "MappingEngine_init (Some data) = Inr e"
    and "i < j" and "j < length (loaded_records data)"
    and "namaste_code (loaded_records data ! i) = namaste_code (loaded_records data ! j)"
    and "\<forall>k. j < k \<and> k < length (loaded_records data) \<longrightarrow>
           namaste_code (loaded_records data ! k) \<noteq> namaste_code (loaded_records data ! j)"
  shows "map_of (mappings e) (namaste_code (loaded_records data ! i))
           = Some (loaded_records data ! j)
       \<and> map_of (reverse_mappings e) (icd11_code (loaded_records data ! i))
           = Some (filter (\<lambda>x. icd11_code x = icd11_code (loaded_records data ! i))
                     (loaded_records data))
       \<and> map_of (reverse_mappings e) (icd11_code (loaded_records data ! j))
           = Some (filter (\<lambda>x. icd11_code x = icd11_code (loaded_records data ! j))
                     (loaded_records data))
       \<and> loaded_records data ! i
           \<in> set (snd (snd (translate_code e (icd11_code (loaded_records data ! i))
                               icd11_system_uri namaste_system_uri)))
       \<and> total_mappings (get_statistics e) = int (length (mappings e))
       \<and> length (mappings e)
           < sum_list (map (\<lambda>(k, l). length l) (reverse_mappings e))"
proof -
  let ?recs = "loaded_records data"
  have e: "e = foldl index_record (empty_engine\<lparr>metadata := ds_metadata data\<rparr>) ?recs"
    using init_loaded(1) [OF assms(1)] by (simp add: loaded_records_def)
  have i: "i < length ?recs" using assms(2,3) by simp
  have "List.find (\<lambda>x. namaste_code x = namaste_code (?recs ! j)) (rev ?recs) = Some (?recs ! j)"
    using assms(3,5) by (intro find_rev_last) auto
  then have fwd: "map_of (mappings e) (namaste_code (?recs ! i)) = Some (?recs ! j)"
    using assms(4) by (simp add: loaded_lookup_forward [OF assms(1)] loaded_records_def)
  have rev_i: "map_of (reverse_mappings e) (icd11_code (?recs ! i))
           = Some (filter (\<lambda>x. icd11_code x = icd11_code (?recs ! i)) ?recs)"
    using i by (simp add: loaded_lookup_reverse [OF assms(1)] loaded_records_def)
  have rev_j: "map_of (reverse_mappings e) (icd11_code (?recs ! j))
           = Some (filter (\<lambda>x. icd11_code x = icd11_code (?recs ! j)) ?recs)"
    using assms(3) by (simp add: loaded_lookup_reverse [OF assms(1)] loaded_records_def)
  have mem: "?recs ! i \<in> set (filter (\<lambda>x. icd11_code x = icd11_code (?recs ! i)) ?recs)"
    using i by simp
  then have ne: "filter (\<lambda>x. icd11_code x = icd11_code (?recs ! i)) ?recs \<noteq> []"
    using length_pos_if_in_set by fastforce
  have tr: "?recs ! i \<in> set (snd (snd (translate_code e (icd11_code (?recs ! i))
                               icd11_system_uri namaste_system_uri)))"
    using mem ne system_uris_differ
    by (simp add: translate_code_def translate_icd11_to_namaste_def rev_i)
  have total: "total_mappings (get_statistics e) = int (length (mappings e))"
    by (simp add: get_statistics_def split: prod.splits)
  have "length (mappings e) = card (set (map namaste_code ?recs))"
    by (subst e) (simp add: length_forward empty_engine_def)
  also have "\<dots> < length (map namaste_code ?recs)"
    using assms(2,3,4) by (intro card_less_if_repeated [of i j]) auto
  also have "\<dots> = sum_list (map (\<lambda>(k, l). length l) (reverse_mappings e))"
    by (subst e) (simp add: sum_lengths_reverse empty_engine_def)
  finally have "length (mappings e) < sum_list (map (\<lambda>(k, l). length l) (reverse_mappings e))" .
  with fwd rev_i rev_j tr total show ?thesis by simp
qed

theorem duplicate_source_code_last_write_wins_witness:
  "MappingEngine_init (Some ds_shared) = Inr engine_shared
   \<and> loaded_records ds_shared = [cm_madhumeha, cm_sthula]
   \<and> map_of (mappings engine_shared) ''NAM-2001'' = Some cm_sthula
   \<and> map_of (reverse_mappings engine_shared) ''5A11'' = Some [cm_madhumeha, cm_sthula]
   \<and> cm_madhumeha \<in> set (snd (snd (translate_code engine_shared ''5A11''
                                      icd11_system_uri namaste_system_uri)))
   \<and> total_mappings (get_statistics engine_shared) = 1
   \<and> sum_list (map (\<lambda>(k, l). length l) (reverse_mappings engine_shared)) = 2"
proof -
  have later: "\<forall>k. 1 < k \<and> k < length (loaded_records ds_shared) \<longrightarrow>
           namaste_code (loaded_records ds_shared ! k) \<noteq> namaste_code (loaded_records ds_shared ! 1)"
    by (simp add: loaded_records_examples)
  have same: "namaste_code (loaded_records ds_shared ! 0) = namaste_code (loaded_records ds_shared ! 1)"
    by (simp add: loaded_records_examples example_records)
  have len: "1 < length (loaded_records ds_shared)"
    by (simp add: loaded_records_examples)
  have "(0::nat) < 1" by simp
  from duplicate_source_code_last_write_wins [OF init_shared this len same later]
  show ?thesis
    by (simp add: init_shared loaded_records_examples)
       (simp add: example_records engine_shared_def)
qed


text \<open>
  C7. For every loaded dataset, the grouping in the direction classification to
  traditional medicine returns one element for each key of the reverse index, which are
  the distinct target codes of the dataset in order of first appearance; the element's
  targets list every record of the dataset with that target code, in load order, and its
  display text is the target display of the first of these records. The lists of the
  reverse index are these lists of records, none of them empty.
\<close>

theorem reverse_concept_grouping:
  assumes "MappingEngine_init (Some data) = Inr e"
  shows "get_mappings_for_concept_map e icd11_system_uri namaste_system_uri
           = Inr (map (reverse_group (loaded_records data))
                    (rev (remdups (rev (map icd11_code (loaded_records data))))))
       \<and> map fst (reverse_mappings e)
           = rev (remdups (rev (map icd11_code (loaded_records data))))
       \<and> (\<forall>t\<in>set (map fst (reverse_mappings e)).
             map_of (reverse_mappings e) t = Some (records_with_target (loaded_records data) t)
             \<and> records_with_target (loaded_records data) t \<noteq> [])"
proof -
  let ?recs = "loaded_records data"
  let ?keys = "rev (remdups (rev (map icd11_code ?recs)))"
  note idx = loaded_reverse_index [OF assms]
  have lists: "\<forall>t\<in>set (map fst (reverse_mappings e)).
             map_of (reverse_mappings e) t = Some (records_with_target ?recs t)
             \<and> records_with_target ?recs t \<noteq> []"
  proof
    fix t assume "t \<in> set (map fst (reverse_mappings e))"
    then have t: "t \<in> icd11_code ` set ?recs" by (simp add: idx(1))
    then have "records_with_target ?recs t \<noteq> []"
      by (auto simp: records_with_target_def filter_empty_conv)
    with t show "map_of (reverse_mappings e) t = Some (records_with_target ?recs t)
             \<and> records_with_target ?recs t \<noteq> []"
      by (simp add: loaded_lookup_reverse [OF assms] loaded_records_def records_with_target_def)
  qed
  have nonempty: "\<forall>(k, ms)\<in>set (reverse_mappings e). ms \<noteq> []"
  proof -
    { fix k ms assume "(k, ms) \<in> set (reverse_mappings e)"
      then have "k \<in> set (map fst (reverse_mappings e))" "map_of (reverse_mappings e) k = Some ms"
        using idx(2) by (force, simp)
      with lists have "ms \<noteq> []" by auto }
    then show ?thesis by auto
  qed
  have "reverse_group_loop {} [] (reverse_mappings e)
          = Inr ([] @ map (\<lambda>(k, ms). \<lparr>source_code = k, source_display = icd11_display (hd ms),
                                         targets = map namaste_target ms\<rparr>) (reverse_mappings e))"
    by (rule reverse_group_loop_distinct [OF idx(2) nonempty]) simp
  also have "\<dots> = Inr (map (reverse_group ?recs) ?keys)"
    by (subst idx(3)) (simp add: reverse_group_def comp_def)
  finally have "get_mappings_for_concept_map e icd11_system_uri namaste_system_uri
           = Inr (map (reverse_group ?recs) ?keys)"
    using system_uris_differ by (simp add: get_mappings_for_concept_map_def)
  with idx(1) lists show ?thesis by simp
qed

text \<open>Two source codes with one target code give one element with two targets.\<close>

theorem reverse_concept_grouping_witness:
  "get_mappings_for_concept_map engine_anaemia icd11_system_uri namaste_system_uri
     = Inr [\<lparr>source_code = ''DB64.0'', source_display = ''Iron deficiency anaemia'',
             targets = [\<lparr>target_code = ''NAM-1001'', target_display = ''Pandu'',
                          target_equivalence = ''equivalent''\<rparr>,
                        \<lparr>target_code = ''NAM-3001'', target_display = ''Veluppu Noi'',
                          target_equivalence = ''equivalent''\<rparr>]\<rparr>]
   \<and> map fst (reverse_mappings engine_anaemia) = [''DB64.0'']
   \<and> map_of (reverse_mappings engine_anaemia) ''DB64.0'' = Some [cm_pandu, cm_veluppu]"
  using reverse_concept_grouping [OF init_anaemia]
  by (simp add: loaded_records_examples reverse_group_def records_with_target_def
      namaste_target_def example_records engine_anaemia_def)

text \<open>
  C9. When the translation fails, the handler answers with the resource that holds the
  single parameter \<open>result\<close> with value false. More generally, whatever else the
  builder is given, with \<open>result\<close> false its resource starts with that parameter and
  holds no parameter named \<open>match\<close> and no parameter with parts, hence no target coding.
\<close>

theorem failed_translation_response:
  assumes "fst (translate_code e req_code req_system req_target_system) = False"
  shows "translate_handler e req_code req_system req_target_system ai_explanation
           = Inr result_only
       \<and> (\<forall>p\<in>set (parameter (build_translate_response False src_code tgt_code tgt_display
                                  tgt_system eqv ai)).
             parameter_name p \<noteq> ''match'' \<and> part p = None)
       \<and> hd (parameter (build_translate_response False src_code tgt_code tgt_display
                            tgt_system eqv ai))
           = \<lparr>parameter_name = ''result'', valueBoolean = Some False,
              valueString = None, part = None\<rparr>"
proof -
  have "translate_handler e req_code req_system req_target_system ai_explanation
           = Inr result_only"
  proof -
    obtain primary_mapping all_mappings where
      "translate_code e req_code req_system req_target_system
         = (False, primary_mapping, all_mappings)"
      using assms
      by (cases "translate_code e req_code req_system req_target_system") auto
    then show ?thesis
      by (simp add: translate_handler_def build_translate_response_False truthy_def
          result_only_def)
  qed
  then show ?thesis
    by (simp add: build_translate_response_False)
qed

theorem failed_translation_response_witness:
  "fst (translate_code engine_pandu ''NO-SUCH-CODE'' namaste_system_uri icd11_system_uri) = False
   \<and> translate_handler engine_pandu ''NO-SUCH-CODE'' namaste_system_uri icd11_system_uri
       (Some ''unused'') = Inr result_only"
proof -
  have failed:
    "fst (translate_code engine_pandu ''NO-SUCH-CODE'' namaste_system_uri icd11_system_uri) = False"
    by (simp add: translate_code_def translate_namaste_to_icd11_def engine_pandu_def)
  from failed_translation_response [OF failed, of "Some ''unused''"] failed
  show ?thesis by simp
qed


text \<open>
  C5, as amended. For every loaded dataset and every query, the search returns the
  matching records in the iteration order of the forward index, and the source codes in
  that order are the source codes of the dataset in order of first appearance: the order
  is fixed by the dataset, and it is load order, not ascending source code.
\<close>

theorem search_results_in_index_order:
  assumes "MappingEngine_init (Some data) = Inr e"
  shows "search_mappings unicode_lower e q None
           = filter (\<lambda>m. any_field_matches unicode_lower (str_lower unicode_lower q) m
                         default_search_fields)
               (dict_values (mappings e))
       \<and> map namaste_code (dict_values (mappings e))
           = rev (remdups (rev (map namaste_code (loaded_records data))))"
proof -
  have e: "e = foldl index_record (empty_engine\<lparr>metadata := ds_metadata data\<rparr>)
                 (loaded_records data)"
    using init_loaded(1) [OF assms] by (simp add: loaded_records_def)
  have "\<forall>(k, m)\<in>set (mappings e). namaste_code m = k"
    by (subst e) (rule forward_values_keyed, simp add: empty_engine_def)
  then have "map namaste_code (dict_values (mappings e)) = map fst (mappings e)"
    unfolding dict_values_def by (rule keyed_values)
  also have "\<dots> = rev (remdups (rev (map namaste_code (loaded_records data))))"
    by (subst e) (simp add: keys_forward empty_engine_def)
  finally show ?thesis
    by (simp add: search_mappings_filter)
qed

theorem search_results_in_index_order_witness:
  "search_mappings unused_lower engine_anaemia_swapped ''anaemia'' None
     = [cm_veluppu, cm_pandu]
   \<and> loaded_records ds_anaemia_swapped = [cm_veluppu, cm_pandu]
   \<and> map namaste_code (dict_values (mappings engine_anaemia_swapped))
       = [''NAM-3001'', ''NAM-1001'']"
  using search_results_in_index_order [OF init_anaemia_swapped, of unused_lower "''anaemia''"]
  by (simp add: search_anaemia_swapped loaded_records_examples example_records)

text \<open>
  C5 as stated fails on a dataset that lists the greater source code first: both records
  match, and they come back in load order, which is not ascending.
\<close>

theorem search_not_ascending_counterexample:
  "MappingEngine_init (Some ds_anaemia_swapped) = Inr engine_anaemia_swapped
   \<and> map namaste_code (search_mappings unused_lower engine_anaemia_swapped ''anaemia'' None)
       = [''NAM-3001'', ''NAM-1001'']
   \<and> \<not> sorted (map namaste_code
                  (search_mappings unused_lower engine_anaemia_swapped ''anaemia'' None))"
  by (simp add: init_anaemia_swapped search_anaemia_swapped example_records)

text \<open>
  C8, as amended. Two queries with the same lower-casing give the same result sequence,
  for every engine, whatever \<open>str.lower\<close> does beyond ASCII. A record of the forward
  index is returned exactly when one of its source display, target display and notes is
  present, is not empty, and has the lower-cased query as a contiguous part of its
  lower-cased value. In particular the upper-case form of an ASCII query gives the
  result sequence of the query itself.
\<close>

theorem search_case_insensitive:
  assumes "str_lower unicode_lower query = str_lower unicode_lower variant"
  shows "search_mappings unicode_lower e query None = search_mappings unicode_lower e variant None
       \<and> search_mappings unicode_lower e query None
           = filter (\<lambda>m. field_holds unicode_lower (Some (namaste_display m)) query
                       \<or> field_holds unicode_lower (Some (icd11_display m)) query
                       \<or> field_holds unicode_lower (notes_f m) query)
               (dict_values (mappings e))
       \<and> (is_ascii query \<longrightarrow>
            search_mappings unicode_lower e (map char_upper query) None
              = search_mappings unicode_lower e query None)"
proof -
  have "field_holds unicode_lower v query = field_holds unicode_lower v variant" for v
    by (simp only: field_holds_def assms)
  then have "search_mappings unicode_lower e query None
               = search_mappings unicode_lower e variant None"
    and "search_mappings unicode_lower e query None
           = filter (\<lambda>m. field_holds unicode_lower (Some (namaste_display m)) query
                       \<or> field_holds unicode_lower (Some (icd11_display m)) query
                       \<or> field_holds unicode_lower (notes_f m) query)
               (dict_values (mappings e))"
    by (simp_all add: search_mappings_filter default_fields_match)
  moreover have "is_ascii query \<longrightarrow>
      search_mappings unicode_lower e (map char_upper query) None
        = search_mappings unicode_lower e query None"
    by (simp add: search_mappings_def str_lower_upper)
  ultimately show ?thesis by simp
qed

theorem search_case_insensitive_witness:
  "str_lower unused_lower ''DIABETES'' = str_lower unused_lower ''diabetes''
   \<and> is_ascii ''diabetes''
   \<and> map char_upper ''diabetes'' = ''DIABETES''
   \<and> search_mappings unused_lower engine_duplicate ''DIABETES'' None = [cm_prameha]
   \<and> search_mappings unused_lower engine_duplicate ''diabetes'' None = [cm_prameha]"
proof -
  have same: "str_lower unused_lower ''DIABETES'' = str_lower unused_lower ''diabetes''"
    by code_simp
  have ascii: "is_ascii ''diabetes''" by code_simp
  have upper: "map char_upper ''diabetes'' = ''DIABETES''" by code_simp
  from search_case_insensitive [OF same, of engine_duplicate] same ascii upper
  show ?thesis by (simp add: search_diabetes)
qed

text \<open>
  C8 as stated fails for the empty query on a record whose display texts are empty and
  that has no notes: the empty query is a part of the empty source display, yet the
  record is not returned, since an empty field is skipped before the containment test.
\<close>

theorem search_empty_field_counterexample:
  "MappingEngine_init (Some ds_blank) = Inr engine_blank
   \<and> dict_values (mappings engine_blank) = [cm_blank]
   \<and> namaste_display cm_blank = []
   \<and> sublist (str_lower unused_lower []) (str_lower unused_lower (namaste_display cm_blank))
   \<and> search_mappings unused_lower engine_blank [] None = []"
  by (simp add: init_blank)
     (simp add: search_mappings_def default_search_fields_def getattr_CodeMapping_def
      engine_blank_def dict_values_def example_records str_lower_def is_ascii_def)

end
